theory Spec2Isabelle
  imports Complex_Main
begin

section \<open>Data model of \<open>analyze_voice.py\<close>\<close>

text \<open>
  The functions of \<open>analyze_voice.py\<close> exchange Python dictionaries. A dictionary whose
  keys are fixed by the code that builds it is a record here; the accent dictionary, which
  comes from a JSON answer and is read with \<open>.get\<close>, is a map. Numbers that Python holds
  as floats are reals; the threshold comparisons of the source are comparisons of reals.
\<close>

text \<open>The dictionary returned by \<open>categorize_voice\<close>.\<close>

record voice_characteristics =
  voice_type :: string
  voice_range :: string
  brightness :: string

text \<open>
  The parts of the dictionary returned by \<open>analyze_audio_characteristics\<close> that
  \<open>generate_eq_recommendations\<close> reads, under the keys of the source.
\<close>

record fundamental_frequency =
  mean_hz :: real

record spectral_characteristics =
  centroid_mean_hz :: real

record voice_quality =
  breathiness_indicator :: string

record audio_analysis =
  fundamental_frequency :: fundamental_frequency
  spectral_characteristics :: spectral_characteristics
  voice_quality :: voice_quality
  voice_characteristics :: voice_characteristics

text \<open>
  The accent dictionary: field names to string values. Only \<open>primary_accent\<close> is read,
  and it may be absent.
\<close>

type_synonym accent_analysis = "string \<rightharpoonup> string"

text \<open>
  One entry of \<open>eq_bands\<close>. The keys \<open>gain_db\<close> and \<open>q\<close> are absent from some of the
  dictionary literals of the source, hence optional.
\<close>

record eq_band =
  type :: string
  frequency_hz :: int
  gain_db :: "string option"
  q :: "real option"
  description :: string

text \<open>The dictionary returned by \<open>generate_eq_recommendations\<close>.\<close>

record eq_plan =
  summary :: string
  recommendations :: "string list"
  eq_bands :: "eq_band list"
  accent_specific_tips :: "string list"
  processing_suggestions :: "string list"

section \<open>Python built-ins used by the source\<close>

text \<open>\<open>round(x)\<close> with one argument: the nearest integer, a tie going to the even one.\<close>

definition py_round :: "real \<Rightarrow> int" where
  "py_round x =
     (let f = \<lfloor>x\<rfloor>; d = x - of_int f
      in if d < 1 / 2 then f
         else if 1 / 2 < d then f + 1
         else if even f then f else f + 1)"

text \<open>Decimal digits of a natural number, as \<open>str\<close> prints an int.\<close>

definition digit_char :: "nat \<Rightarrow> char" where
  "digit_char d = ''0123456789'' ! d"

fun show_nat :: "nat \<Rightarrow> string" where
  "show_nat n =
     (if n < 10 then [digit_char n] else show_nat (n div 10) @ [digit_char (n mod 10)])"

declare show_nat.simps [simp del]

text \<open>
  The format \<open>{x:.0f}\<close>: \<open>x\<close> rounded to an integer, ties to even, printed in decimal;
  a negative \<open>x\<close> keeps its sign even when it rounds to zero.
\<close>

definition format_0f :: "real \<Rightarrow> string" where
  "format_0f x =
     (if x < 0 then ''-'' @ show_nat (nat (- py_round x)) else show_nat (nat (py_round x)))"

text \<open>\<open>d.get(k, dflt)\<close>.\<close>

definition dict_get :: "('k \<rightharpoonup> 'v) \<Rightarrow> 'k \<Rightarrow> 'v \<Rightarrow> 'v" where
  "dict_get d k dflt = (case d k of None \<Rightarrow> dflt | Some v \<Rightarrow> v)"

text \<open>
  \<open>str.lower\<close>. Strings are byte strings here; the letters \<open>A\<close> to \<open>Z\<close> are mapped to
  \<open>a\<close> to \<open>z\<close> and every other byte is kept. Python also lower-cases letters outside
  ASCII; the keywords that the source looks for in a lower-cased string are ASCII.
\<close>

definition lower_char :: "char \<Rightarrow> char" where
  "lower_char c =
     (case map_of (zip ''ABCDEFGHIJKLMNOPQRSTUVWXYZ'' ''abcdefghijklmnopqrstuvwxyz'') c of
        None \<Rightarrow> c
      | Some l \<Rightarrow> l)"

definition lower :: "string \<Rightarrow> string" where
  "lower s = map lower_char s"

text \<open>\<open>sub in s\<close> on strings: \<open>sub\<close> occurs in \<open>s\<close> as a contiguous run.\<close>

fun starts_with :: "string \<Rightarrow> string \<Rightarrow> bool" where
  "starts_with [] s = True"
| "starts_with (c # cs) [] = False"
| "starts_with (c # cs) (d # ds) = (c = d \<and> starts_with cs ds)"

fun py_in :: "string \<Rightarrow> string \<Rightarrow> bool" where
  "py_in sub [] = (sub = [])"
| "py_in sub (c # cs) = (starts_with sub (c # cs) \<or> py_in sub cs)"

section \<open>Breathiness indicator\<close>

text \<open>
  The conditional expression under the key \<open>breathiness_indicator\<close> in
  \<open>analyze_audio_characteristics\<close>, as a function of \<open>np.mean(zcr)\<close>.
\<close>

definition breathiness_of :: "real \<Rightarrow> string" where
  "breathiness_of zcr_mean =
     (if zcr_mean > 0.1 then ''high''
      else if zcr_mean > 0.05 then ''moderate''
      else ''low'')"

section \<open>\<open>categorize_voice\<close>\<close>

definition categorize_voice :: "real \<Rightarrow> real \<Rightarrow> real \<Rightarrow> voice_characteristics" where
  "categorize_voice f0_mean centroid_mean zcr_mean =
     (let (vtype, vrange) =
            (if f0_mean < 130 then (''bass'', ''low'')
             else if f0_mean < 180 then
               (if f0_mean < 155 then ''baritone'' else ''tenor'', ''low-mid'')
             else if f0_mean < 250 then
               (if f0_mean < 220 then ''alto'' else ''mezzo-soprano'', ''mid'')
             else (''soprano'', ''high''));
          bright =
            (if centroid_mean < 1500 then ''dark/warm''
             else if centroid_mean < 2500 then ''balanced''
             else if centroid_mean < 3500 then ''bright''
             else ''very bright/sibilant'')
      in \<lparr>voice_type = vtype, voice_range = vrange, brightness = bright\<rparr>)"

section \<open>\<open>generate_eq_recommendations\<close>\<close>

text \<open>
  The function keeps two lists, \<open>recommendations\<close> and \<open>eq_bands\<close>, and appends to both
  as it goes through its blocks. The pair of lists is the state; each block of the source
  is a step on it, named after the comment that opens the block.
\<close>

type_synonym rule_state = "string list \<times> eq_band list"

definition append_both :: "string \<Rightarrow> eq_band \<Rightarrow> rule_state \<Rightarrow> rule_state" where
  "append_both r b st = (fst st @ [r], snd st @ [b])"

text \<open>The dictionary literals appended to \<open>eq_bands\<close>.\<close>

definition high_pass_band :: "real \<Rightarrow> eq_band" where
  "high_pass_band hp_freq =
     \<lparr>type = ''high-pass'', frequency_hz = py_round hp_freq, gain_db = None, q = None,
      description = ''Remove sub-bass rumble''\<rparr>"

definition warmth_band :: "real \<Rightarrow> eq_band" where
  "warmth_band f0 =
     \<lparr>type = ''bell'', frequency_hz = py_round f0, gain_db = Some ''+1 to +2'',
      q = Some 1.5, description = ''Add warmth and body''\<rparr>"

definition presence_band :: "int \<Rightarrow> eq_band" where
  "presence_band presence_freq =
     \<lparr>type = ''bell'', frequency_hz = presence_freq, gain_db = Some ''+2 to +3'',
      q = Some 1.0, description = ''Enhance presence and clarity''\<rparr>"

definition sibilance_band :: eq_band where
  "sibilance_band =
     \<lparr>type = ''bell'', frequency_hz = 6500, gain_db = Some ''-2 to -4'',
      q = Some 2.0, description = ''Control sibilance''\<rparr>"

definition air_band :: eq_band where
  "air_band =
     \<lparr>type = ''high-shelf'', frequency_hz = 10000, gain_db = Some ''+2 to +3'',
      q = None, description = ''Add air and sparkle''\<rparr>"

definition breathiness_band :: eq_band where
  "breathiness_band =
     \<lparr>type = ''bell'', frequency_hz = 5000, gain_db = Some ''-1 to -2'',
      q = Some 1.5, description = ''Control breathiness (optional)''\<rparr>"

definition mud_band :: eq_band where
  "mud_band =
     \<lparr>type = ''bell'', frequency_hz = 300, gain_db = Some ''-1 to -3'',
      q = Some 1.0, description = ''Reduce muddiness (if needed)''\<rparr>"

text \<open>Low-end recommendations: the high-pass filter and, nested in it, the fundamental boost.\<close>

definition low_end :: "real \<Rightarrow> voice_characteristics \<Rightarrow> rule_state \<Rightarrow> rule_state" where
  "low_end f0 voice_chars st =
     (if f0 > 0 then
        (let hp_freq = max 60 (f0 * 0.5);
             st1 = append_both
                     (''Apply high-pass filter at '' @ format_0f hp_freq @
                      '' Hz to remove rumble without affecting voice fundamentals'')
                     (high_pass_band hp_freq) st
         in if voice_range voice_chars \<in> set [''low'', ''low-mid''] then
              append_both
                (''Consider subtle boost (+1-2 dB) around '' @ format_0f f0 @
                 '' Hz to add warmth and body'')
                (warmth_band f0) st1
            else st1)
      else st)"

text \<open>Mid-range presence.\<close>

definition mid_range_presence :: "real \<Rightarrow> rule_state \<Rightarrow> rule_state" where
  "mid_range_presence f0 st =
     (let presence_freq = (if f0 < 200 then 2500 else 3000 :: int)
      in append_both
           (''Boost presence around '' @ show_nat (nat presence_freq) @
            '' Hz (+2-3 dB) for clarity and intelligibility'')
           (presence_band presence_freq) st)"

text \<open>Brightness control.\<close>

definition brightness_control :: "voice_characteristics \<Rightarrow> rule_state \<Rightarrow> rule_state" where
  "brightness_control voice_chars st =
     (if brightness voice_chars = ''very bright/sibilant'' then
        append_both
          ''Apply de-esser or reduce 5-8 kHz range (-2-4 dB) to control sibilance''
          sibilance_band st
      else if brightness voice_chars = ''dark/warm'' then
        append_both
          ''Add air and sparkle with a gentle high shelf boost (+2-3 dB) above 10 kHz''
          air_band st
      else st)"

text \<open>Breathiness handling.\<close>

definition breathiness_handling :: "string \<Rightarrow> rule_state \<Rightarrow> rule_state" where
  "breathiness_handling breathiness st =
     (if breathiness = ''high'' then
        append_both
          ''Consider reducing 4-6 kHz slightly (-1-2 dB) to manage breathiness, or embrace it for intimacy''
          breathiness_band st
      else st)"

text \<open>Mud reduction.\<close>

definition mud_reduction :: "rule_state \<Rightarrow> rule_state" where
  "mud_reduction st =
     append_both
       ''Cut 200-400 Hz range slightly (-1-3 dB) if voice sounds muddy or boxy''
       mud_band st"

text \<open>Accent-specific recommendations: the \<open>if\<close>/\<open>elif\<close> chain on the lower-cased accent.\<close>

definition irish_tips :: "string list" where
  "irish_tips =
     [''Irish accents often have melodic qualities - preserve natural intonation by avoiding heavy compression'',
      ''The characteristic 'lilt' sits in the 1-3 kHz range - be careful not to over-boost this region'']"

definition british_tips :: "string list" where
  "british_tips = [''RP/British accents may benefit from slight presence boost for clarity'']"

definition american_tips :: "string list" where
  "american_tips =
     [''American accents often have strong 'r' sounds - watch the 2-3 kHz region'']"

definition accent_tips :: "string \<Rightarrow> string list" where
  "accent_tips accent =
     (if py_in ''irish'' accent \<or> py_in ''celtic'' accent then irish_tips
      else if py_in ''british'' accent \<or> py_in ''english'' accent then british_tips
      else if py_in ''american'' accent then american_tips
      else [])"

text \<open>
  The whole function. On dictionaries of the shape above no statement of the source
  raises: the keys read with \<open>[...]\<close> are fields of the records, and the one key that may
  be absent is read with \<open>.get\<close>. The result is therefore a plan, not a sum with an error.
\<close>

definition generate_eq_recommendations :: "audio_analysis \<Rightarrow> accent_analysis \<Rightarrow> eq_plan" where
  "generate_eq_recommendations audio accent_an =
     (let f0 = mean_hz (fundamental_frequency audio);
          centroid = centroid_mean_hz (spectral_characteristics audio);
          breathiness = breathiness_indicator (voice_quality audio);
          voice_chars = voice_characteristics audio;
          st = mud_reduction
                 (breathiness_handling breathiness
                   (brightness_control voice_chars
                     (mid_range_presence f0
                       (low_end f0 voice_chars ([], [])))));
          accent = lower (dict_get accent_an ''primary_accent'' '''')
      in \<lparr>summary = ''Voice profile: '' @ voice_type voice_chars @ '' with '' @
                     brightness voice_chars @ '' tonal quality'',
          recommendations = fst st,
          eq_bands = snd st,
          accent_specific_tips = accent_tips accent,
          processing_suggestions =
            [''Apply subtle compression (2:1 to 4:1 ratio) for consistent levels'',
             ''Use a noise gate if there's background noise between phrases'',
             ''Consider gentle saturation/warmth for added character'']\<rparr>)"

section \<open>Facts about the built-ins\<close>

lemma starts_with_iff: "starts_with sub s \<longleftrightarrow> (\<exists>ss. s = sub @ ss)"
  by (induction sub s rule: starts_with.induct) auto

lemma py_in_iff: "py_in sub s \<longleftrightarrow> (\<exists>ps ss. s = ps @ sub @ ss)"
proof (induction s)
  case Nil
  show ?case by auto
next
  case (Cons c cs)
  have "(\<exists>ps ss. c # cs = ps @ sub @ ss) \<longleftrightarrow>
        (\<exists>ss. c # cs = sub @ ss) \<or> (\<exists>ps ss. cs = ps @ sub @ ss)"
    by (auto simp: Cons_eq_append_conv)
  with Cons show ?case by (simp add: starts_with_iff)
qed

lemma lower_char_idem: "lower_char (lower_char c) = lower_char c"
  by (simp add: lower_char_def)

lemma lower_idem: "lower (lower s) = lower s"
  by (simp add: lower_def lower_char_idem)

lemma py_round_bound: "\<bar>of_int (py_round x) - x\<bar> \<le> 1 / 2"
  unfolding py_round_def Let_def by (auto simp: abs_le_iff; linarith)

section \<open>The blocks of \<open>generate_eq_recommendations\<close>, one at a time\<close>

lemma snd_append_both: "snd (append_both r b st) = snd st @ [b]"
  by (simp add: append_both_def)

lemma snd_low_end:
  "snd (low_end f0 vc st) =
     snd st @ (if 0 < f0 then [high_pass_band (max 60 (f0 * 0.5))] else []) @
     (if 0 < f0 \<and> voice_range vc \<in> {''low'', ''low-mid''} then [warmth_band f0] else [])"
  by (simp add: low_end_def Let_def snd_append_both)

lemma snd_mid_range_presence:
  "snd (mid_range_presence f0 st) = snd st @ [presence_band (if f0 < 200 then 2500 else 3000)]"
  by (simp add: mid_range_presence_def Let_def snd_append_both)

lemma snd_brightness_control:
  "snd (brightness_control vc st) =
     snd st @ (if brightness vc = ''very bright/sibilant'' then [sibilance_band]
               else if brightness vc = ''dark/warm'' then [air_band] else [])"
  by (simp add: brightness_control_def snd_append_both)

lemma snd_breathiness_handling:
  "snd (breathiness_handling br st) =
     snd st @ (if br = ''high'' then [breathiness_band] else [])"
  by (simp add: breathiness_handling_def snd_append_both)

lemma snd_mud_reduction: "snd (mud_reduction st) = snd st @ [mud_band]"
  by (simp add: mud_reduction_def snd_append_both)

lemma eq_bands_unfold:
  "eq_bands (generate_eq_recommendations a acc) =
     (if 0 < mean_hz (fundamental_frequency a)
      then [high_pass_band (max 60 (mean_hz (fundamental_frequency a) * 0.5))] else []) @
     (if 0 < mean_hz (fundamental_frequency a) \<and>
         voice_range (voice_characteristics a) \<in> {''low'', ''low-mid''}
      then [warmth_band (mean_hz (fundamental_frequency a))] else []) @
     [presence_band (if mean_hz (fundamental_frequency a) < 200 then 2500 else 3000)] @
     (if brightness (voice_characteristics a) = ''very bright/sibilant'' then [sibilance_band]
      else if brightness (voice_characteristics a) = ''dark/warm'' then [air_band] else []) @
     (if breathiness_indicator (voice_quality a) = ''high'' then [breathiness_band] else []) @
     [mud_band]"
  unfolding generate_eq_recommendations_def Let_def
  by (simp only: eq_plan.simps snd_mud_reduction snd_breathiness_handling snd_brightness_control
      snd_mid_range_presence snd_low_end snd_conv append_Nil append_assoc)

text \<open>Every block appends to both lists or to neither.\<close>

lemma length_low_end:
  "length (fst st) = length (snd st) \<Longrightarrow>
   length (fst (low_end f0 vc st)) = length (snd (low_end f0 vc st))"
  by (simp add: low_end_def Let_def append_both_def)

lemma length_mid_range_presence:
  "length (fst st) = length (snd st) \<Longrightarrow>
   length (fst (mid_range_presence f0 st)) = length (snd (mid_range_presence f0 st))"
  by (simp add: mid_range_presence_def Let_def append_both_def)

lemma length_brightness_control:
  "length (fst st) = length (snd st) \<Longrightarrow>
   length (fst (brightness_control vc st)) = length (snd (brightness_control vc st))"
  by (simp add: brightness_control_def append_both_def)

lemma length_breathiness_handling:
  "length (fst st) = length (snd st) \<Longrightarrow>
   length (fst (breathiness_handling br st)) = length (snd (breathiness_handling br st))"
  by (simp add: breathiness_handling_def append_both_def)

lemma length_mud_reduction:
  "length (fst st) = length (snd st) \<Longrightarrow>
   length (fst (mud_reduction st)) = length (snd (mud_reduction st))"
  by (simp add: mud_reduction_def append_both_def)

lemma recommendations_length:
  "length (recommendations (generate_eq_recommendations a acc)) =
   length (eq_bands (generate_eq_recommendations a acc))"
  unfolding generate_eq_recommendations_def Let_def
  by (simp only: eq_plan.simps)
     (intro length_mud_reduction length_breathiness_handling length_brightness_control
        length_mid_range_presence length_low_end, simp)

lemma accent_tips_unfold:
  "accent_specific_tips (generate_eq_recommendations a acc) =
     accent_tips (lower (dict_get acc ''primary_accent'' ''''))"
  by (simp add: generate_eq_recommendations_def Let_def)

text \<open>
  The model runs: a profile of mean pitch 110 Hz, mean centroid 1200 Hz and mean
  zero-crossing rate 0.03 with the accent \<open>Irish\<close>.
\<close>

lemma end_to_end_example:
  "generate_eq_recommendations
     \<lparr>fundamental_frequency = \<lparr>mean_hz = 110\<rparr>,
      spectral_characteristics = \<lparr>centroid_mean_hz = 1200\<rparr>,
      voice_quality = \<lparr>breathiness_indicator = breathiness_of 0.03\<rparr>,
      voice_characteristics = categorize_voice 110 1200 0.03\<rparr>
     [''primary_accent'' \<mapsto> ''Irish''] =
   \<lparr>summary = ''Voice profile: bass with dark/warm tonal quality'',
    recommendations =
      [''Apply high-pass filter at 60 Hz to remove rumble without affecting voice fundamentals'',
       ''Consider subtle boost (+1-2 dB) around 110 Hz to add warmth and body'',
       ''Boost presence around 2500 Hz (+2-3 dB) for clarity and intelligibility'',
       ''Add air and sparkle with a gentle high shelf boost (+2-3 dB) above 10 kHz'',
       ''Cut 200-400 Hz range slightly (-1-3 dB) if voice sounds muddy or boxy''],
    eq_bands =
      [high_pass_band 60, warmth_band 110, presence_band 2500, air_band, mud_band],
    accent_specific_tips = irish_tips,
    processing_suggestions =
      [''Apply subtle compression (2:1 to 4:1 ratio) for consistent levels'',
       ''Use a noise gate if there's background noise between phrases'',
       ''Consider gentle saturation/warmth for added character'']\<rparr>"
  by (simp add: generate_eq_recommendations_def Let_def categorize_voice_def breathiness_of_def
      low_end_def mid_range_presence_def brightness_control_def breathiness_handling_def
      mud_reduction_def append_both_def format_0f_def py_round_def show_nat.simps
      digit_char_def accent_tips_def lower_def lower_char_def dict_get_def)

section \<open>Accent tips\<close>

text \<open>
  C1, as the code has it. The accent tips are found by case-insensitive substring matching
  of \<open>primary_accent\<close> (the empty string when the field is absent) against the keyword
  groups, and the first matching group in table order decides alone: irish/celtic gives the
  two Irish tips; otherwise british/english gives the one British tip; otherwise american
  gives the one American tip; otherwise the list is empty. The tips of a string and of its
  lower-cased form are the same.
\<close>

theorem accent_tips_first_match:
  "accent_specific_tips (generate_eq_recommendations a acc) =
     (if (\<exists>ps ss. lower (dict_get acc ''primary_accent'' '''') = ps @ ''irish'' @ ss) \<or>
         (\<exists>ps ss. lower (dict_get acc ''primary_accent'' '''') = ps @ ''celtic'' @ ss)
      then irish_tips
      else if (\<exists>ps ss. lower (dict_get acc ''primary_accent'' '''') = ps @ ''british'' @ ss) \<or>
              (\<exists>ps ss. lower (dict_get acc ''primary_accent'' '''') = ps @ ''english'' @ ss)
      then british_tips
      else if (\<exists>ps ss. lower (dict_get acc ''primary_accent'' '''') = ps @ ''american'' @ ss)
      then american_tips
      else []) \<and>
   accent_specific_tips (generate_eq_recommendations a (acc(''primary_accent'' \<mapsto> s))) =
     accent_specific_tips (generate_eq_recommendations a (acc(''primary_accent'' \<mapsto> lower s)))"
  by (simp add: accent_tips_unfold accent_tips_def py_in_iff dict_get_def lower_idem)

text \<open>The accents \<open>Irish English\<close> and \<open>IRISH\<close> get the two Irish tips, and only those.\<close>

theorem accent_tips_first_match_witness:
  "accent_specific_tips
     (generate_eq_recommendations
        \<lparr>fundamental_frequency = \<lparr>mean_hz = 110\<rparr>,
         spectral_characteristics = \<lparr>centroid_mean_hz = 1200\<rparr>,
         voice_quality = \<lparr>breathiness_indicator = ''low''\<rparr>,
         voice_characteristics =
           \<lparr>voice_type = ''bass'', voice_range = ''low'', brightness = ''dark/warm''\<rparr>\<rparr>
        [''primary_accent'' \<mapsto> ''Irish English''])
     = irish_tips \<and>
   accent_specific_tips
     (generate_eq_recommendations
        \<lparr>fundamental_frequency = \<lparr>mean_hz = 110\<rparr>,
         spectral_characteristics = \<lparr>centroid_mean_hz = 1200\<rparr>,
         voice_quality = \<lparr>breathiness_indicator = ''low''\<rparr>,
         voice_characteristics =
           \<lparr>voice_type = ''bass'', voice_range = ''low'', brightness = ''dark/warm''\<rparr>\<rparr>
        [''primary_accent'' \<mapsto> ''IRISH''])
     = irish_tips"
proof -
  have "lower ''Irish English'' = [] @ ''irish'' @ '' english''"
    by (simp add: lower_def lower_char_def)
  then have mixed: "\<exists>ps ss. lower ''Irish English'' = ps @ ''irish'' @ ss"
    by blast
  have "lower ''IRISH'' = [] @ ''irish'' @ []"
    by (simp add: lower_def lower_char_def)
  then have upper: "\<exists>ps ss. lower ''IRISH'' = ps @ ''irish'' @ ss"
    by blast
  show ?thesis
    using mixed upper
      accent_tips_first_match [of _ "[''primary_accent'' \<mapsto> ''Irish English'']"]
      accent_tips_first_match [of _ "[''primary_accent'' \<mapsto> ''IRISH'']"]
    by (simp add: dict_get_def)
qed

text \<open>
  C1 as the specification states it (the tips of every matching group are appended) fails:
  the accent \<open>British American\<close> holds a keyword of the british group and the keyword of
  the american group, and gets the British tip alone.
\<close>

theorem accent_two_groups_counterexample:
  "py_in ''british'' (lower ''British American'') \<and>
   py_in ''american'' (lower ''British American'') \<and>
   accent_specific_tips
     (generate_eq_recommendations
        \<lparr>fundamental_frequency = \<lparr>mean_hz = 110\<rparr>,
         spectral_characteristics = \<lparr>centroid_mean_hz = 1200\<rparr>,
         voice_quality = \<lparr>breathiness_indicator = ''low''\<rparr>,
         voice_characteristics =
           \<lparr>voice_type = ''bass'', voice_range = ''low'', brightness = ''dark/warm''\<rparr>\<rparr>
        [''primary_accent'' \<mapsto> ''British American''])
     = british_tips \<and>
   british_tips \<noteq> british_tips @ american_tips"
  by (simp add: accent_tips_unfold accent_tips_def dict_get_def lower_def lower_char_def
      american_tips_def)

section \<open>Breathiness buckets\<close>

text \<open>
  C3, as the code has it. For every mean zero-crossing rate \<open>z\<close> the indicator is
  \<open>high\<close> iff \<open>z > 0.1\<close>, \<open>moderate\<close> iff \<open>0.05 < z \<le> 0.1\<close> and \<open>low\<close> iff
  \<open>z \<le> 0.05\<close>: the three buckets are mutually exclusive and exhaustive, and \<open>0.05\<close>
  itself is in the lowest one.
\<close>

theorem breathiness_buckets:
  "(breathiness_of z = ''high'') = (z > 0.1) \<and>
   (breathiness_of z = ''moderate'') = (0.05 < z \<and> z \<le> 0.1) \<and>
   (breathiness_of z = ''low'') = (z \<le> 0.05) \<and>
   breathiness_of z \<in> {''high'', ''moderate'', ''low''}"
  by (simp add: breathiness_of_def)

text \<open>
  C3 as the specification states it (\<open>z = 0.05\<close> is \<open>moderate\<close>) fails: the comparison of
  the source is strict, and \<open>0.05\<close> is \<open>low\<close>.
\<close>

theorem breathiness_boundary_counterexample:
  "breathiness_of 0.05 = ''low'' \<and> breathiness_of 0.05 \<noteq> ''moderate''"
  by (simp add: breathiness_of_def)

section \<open>Voice type and range\<close>

text \<open>
  C4. \<open>categorize_voice\<close> puts every mean pitch \<open>p\<close> in exactly one bucket, the boundary
  going to the higher one: \<open>p < 130\<close> bass/low, \<open>130 \<le> p < 155\<close> baritone/low-mid,
  \<open>155 \<le> p < 180\<close> tenor/low-mid, \<open>180 \<le> p < 220\<close> alto/mid, \<open>220 \<le> p < 250\<close>
  mezzo-soprano/mid, \<open>p \<ge> 250\<close> soprano/high; so 130, 155, 180, 220 and 250 are
  baritone, tenor, alto, mezzo-soprano and soprano, and a zero or negative pitch is bass.
\<close>

theorem categorize_voice_pitch_buckets:
  "((voice_type (categorize_voice p c z), voice_range (categorize_voice p c z))
      = (''bass'', ''low'')) = (p < 130) \<and>
   ((voice_type (categorize_voice p c z), voice_range (categorize_voice p c z))
      = (''baritone'', ''low-mid'')) = (130 \<le> p \<and> p < 155) \<and>
   ((voice_type (categorize_voice p c z), voice_range (categorize_voice p c z))
      = (''tenor'', ''low-mid'')) = (155 \<le> p \<and> p < 180) \<and>
   ((voice_type (categorize_voice p c z), voice_range (categorize_voice p c z))
      = (''alto'', ''mid'')) = (180 \<le> p \<and> p < 220) \<and>
   ((voice_type (categorize_voice p c z), voice_range (categorize_voice p c z))
      = (''mezzo-soprano'', ''mid'')) = (220 \<le> p \<and> p < 250) \<and>
   ((voice_type (categorize_voice p c z), voice_range (categorize_voice p c z))
      = (''soprano'', ''high'')) = (250 \<le> p) \<and>
   (voice_type (categorize_voice p c z), voice_range (categorize_voice p c z)) \<in>
     {(''bass'', ''low''), (''baritone'', ''low-mid''), (''tenor'', ''low-mid''),
      (''alto'', ''mid''), (''mezzo-soprano'', ''mid''), (''soprano'', ''high'')} \<and>
   voice_type (categorize_voice 130 c z) = ''baritone'' \<and>
   voice_type (categorize_voice 155 c z) = ''tenor'' \<and>
   voice_type (categorize_voice 180 c z) = ''alto'' \<and>
   voice_type (categorize_voice 220 c z) = ''mezzo-soprano'' \<and>
   voice_type (categorize_voice 250 c z) = ''soprano'' \<and>
   voice_type (categorize_voice 0 c z) = ''bass'' \<and>
   voice_type (categorize_voice (- 1) c z) = ''bass''"
  by (simp add: categorize_voice_def Let_def)

section \<open>The list of EQ bands\<close>

text \<open>
  C5. For every analysis and accent, \<open>eq_bands\<close> is the fixed sequence high-pass, warmth
  bell, presence bell, brightness band, breathiness band, mud-reduction bell, with the
  bands whose rule did not fire left out: no band stands out of this order.
\<close>

theorem eq_bands_rule_order:
  "eq_bands (generate_eq_recommendations a acc) =
     (if 0 < mean_hz (fundamental_frequency a)
      then [high_pass_band (max 60 (mean_hz (fundamental_frequency a) * 0.5))] else []) @
     (if 0 < mean_hz (fundamental_frequency a) \<and>
         voice_range (voice_characteristics a) \<in> {''low'', ''low-mid''}
      then [warmth_band (mean_hz (fundamental_frequency a))] else []) @
     [presence_band (if mean_hz (fundamental_frequency a) < 200 then 2500 else 3000)] @
     (if brightness (voice_characteristics a) = ''very bright/sibilant'' then [sibilance_band]
      else if brightness (voice_characteristics a) = ''dark/warm'' then [air_band] else []) @
     (if breathiness_indicator (voice_quality a) = ''high'' then [breathiness_band] else []) @
     [mud_band]"
  by (rule eq_bands_unfold)

text \<open>
  C6. \<open>eq_bands\<close> holds the 6500 Hz bell with gain \<open>-2 to -4\<close> and Q 2.0 iff the brightness
  is \<open>very bright/sibilant\<close>, holds the 10000 Hz high shelf with gain \<open>+2 to +3\<close> iff the
  brightness is \<open>dark/warm\<close>, and never holds both.
\<close>

theorem brightness_band_exclusive:
  "(\<exists>b \<in> set (eq_bands (generate_eq_recommendations a acc)).
      type b = ''bell'' \<and> frequency_hz b = 6500 \<and> gain_db b = Some ''-2 to -4'' \<and>
      q b = Some 2)
     = (brightness (voice_characteristics a) = ''very bright/sibilant'') \<and>
   (\<exists>b \<in> set (eq_bands (generate_eq_recommendations a acc)).
      type b = ''high-shelf'' \<and> frequency_hz b = 10000 \<and> gain_db b = Some ''+2 to +3'')
     = (brightness (voice_characteristics a) = ''dark/warm'') \<and>
   \<not> ((\<exists>b \<in> set (eq_bands (generate_eq_recommendations a acc)).
          type b = ''bell'' \<and> frequency_hz b = 6500 \<and> gain_db b = Some ''-2 to -4'' \<and>
          q b = Some 2) \<and>
       (\<exists>b \<in> set (eq_bands (generate_eq_recommendations a acc)).
          type b = ''high-shelf'' \<and> frequency_hz b = 10000 \<and>
          gain_db b = Some ''+2 to +3''))"
  by (auto simp: eq_bands_unfold high_pass_band_def warmth_band_def presence_band_def
      sibilance_band_def air_band_def breathiness_band_def mud_band_def)

text \<open>
  C7, as the code has it. The high-pass band is emitted iff the mean pitch is positive, it
  is then the only band of type \<open>high-pass\<close>, and its frequency is
  \<open>max(60, 0.5 \<times> mean pitch)\<close> rounded to the nearest integer, a tie going to the even
  one; so it is within one half of \<open>max(60, 0.5 \<times> mean pitch)\<close>, and for the mean pitch
  110 it is 60.
\<close>

theorem high_pass_cutoff:
  "[b \<leftarrow> eq_bands (generate_eq_recommendations a acc). type b = ''high-pass''] =
     (if 0 < mean_hz (fundamental_frequency a)
      then [\<lparr>type = ''high-pass'',
             frequency_hz = py_round (max 60 (0.5 * mean_hz (fundamental_frequency a))),
             gain_db = None, q = None, description = ''Remove sub-bass rumble''\<rparr>]
      else []) \<and>
   (\<exists>b \<in> set (eq_bands (generate_eq_recommendations a acc)). type b = ''high-pass'') =
     (0 < mean_hz (fundamental_frequency a)) \<and>
   (\<forall>b \<in> set (eq_bands (generate_eq_recommendations a acc)).
      type b = ''high-pass'' \<longrightarrow>
      \<bar>of_int (frequency_hz b) - max 60 (0.5 * mean_hz (fundamental_frequency a))\<bar> \<le> 1 / 2) \<and>
   (mean_hz (fundamental_frequency a) = 110 \<longrightarrow>
      map frequency_hz
        [b \<leftarrow> eq_bands (generate_eq_recommendations a acc). type b = ''high-pass''] = [60])"
proof -
  let ?f0 = "mean_hz (fundamental_frequency a)"
  let ?bands = "eq_bands (generate_eq_recommendations a acc)"
  have flt: "[b \<leftarrow> ?bands. type b = ''high-pass''] =
     (if 0 < ?f0 then [high_pass_band (max 60 (0.5 * ?f0))] else [])"
    by (simp add: eq_bands_unfold high_pass_band_def warmth_band_def presence_band_def
      sibilance_band_def air_band_def breathiness_band_def mud_band_def)
  have ex: "(\<exists>b \<in> set ?bands. type b = ''high-pass'') = (0 < ?f0)"
    by (auto simp: eq_bands_unfold high_pass_band_def warmth_band_def presence_band_def
      sibilance_band_def air_band_def breathiness_band_def mud_band_def)
  have near: "\<bar>of_int (frequency_hz b) - max 60 (0.5 * ?f0)\<bar> \<le> 1 / 2"
    if "b \<in> set ?bands" "type b = ''high-pass''" for b
  proof -
    from that have "b \<in> set [b \<leftarrow> ?bands. type b = ''high-pass'']"
      by simp
    then have "b = high_pass_band (max 60 (0.5 * ?f0))"
      unfolding flt by (simp split: if_splits)
    then show ?thesis
      using py_round_bound [of "max 60 (0.5 * ?f0)"] by (simp add: high_pass_band_def)
  qed
  have at110: "map frequency_hz [b \<leftarrow> ?bands. type b = ''high-pass''] = [60]" if "?f0 = 110"
    unfolding flt using that by (simp add: high_pass_band_def py_round_def)
  show ?thesis
    using flt ex near at110 by (simp add: high_pass_band_def)
qed

text \<open>The profile of mean pitch 110: half of it is 55, and the band is at 60 Hz.\<close>

theorem high_pass_cutoff_witness:
  "[b \<leftarrow> eq_bands
        (generate_eq_recommendations
           \<lparr>fundamental_frequency = \<lparr>mean_hz = 110\<rparr>,
         spectral_characteristics = \<lparr>centroid_mean_hz = 1200\<rparr>,
         voice_quality = \<lparr>breathiness_indicator = ''low''\<rparr>,
         voice_characteristics =
           \<lparr>voice_type = ''bass'', voice_range = ''low'', brightness = ''dark/warm''\<rparr>\<rparr>
           [''primary_accent'' \<mapsto> ''Irish'']).
      type b = ''high-pass''] =
     [\<lparr>type = ''high-pass'', frequency_hz = 60, gain_db = None, q = None,
       description = ''Remove sub-bass rumble''\<rparr>]"
  using high_pass_cutoff
    [of "\<lparr>fundamental_frequency = \<lparr>mean_hz = 110\<rparr>,
         spectral_characteristics = \<lparr>centroid_mean_hz = 1200\<rparr>,
         voice_quality = \<lparr>breathiness_indicator = ''low''\<rparr>,
         voice_characteristics =
           \<lparr>voice_type = ''bass'', voice_range = ''low'', brightness = ''dark/warm''\<rparr>\<rparr>"
        "[''primary_accent'' \<mapsto> ''Irish'']"]
  by (simp add: py_round_def)

text \<open>
  C7 as the specification states it (the cutoff equals \<open>max(60, 0.5 \<times> mean pitch)\<close>)
  fails: for the mean pitch 150.5 that value is 75.25, and the band is at 75 Hz.
\<close>

theorem high_pass_cutoff_counterexample:
  "map frequency_hz
     [b \<leftarrow> eq_bands
        (generate_eq_recommendations
           \<lparr>fundamental_frequency = \<lparr>mean_hz = 150.5\<rparr>,
         spectral_characteristics = \<lparr>centroid_mean_hz = 2000\<rparr>,
         voice_quality = \<lparr>breathiness_indicator = ''low''\<rparr>,
         voice_characteristics =
           \<lparr>voice_type = ''baritone'', voice_range = ''low-mid'',
            brightness = ''balanced''\<rparr>\<rparr>
           Map.empty).
      type b = ''high-pass''] = [75] \<and>
   max 60 (0.5 * 150.5) = (75.25 :: real) \<and>
   real_of_int 75 \<noteq> max 60 (0.5 * 150.5)"
  by (simp add: eq_bands_unfold high_pass_band_def warmth_band_def presence_band_def
      sibilance_band_def air_band_def breathiness_band_def mud_band_def py_round_def)

text \<open>
  C8. When the mean pitch is 0, \<open>eq_bands\<close> is the 2500 Hz presence bell, the brightness
  band and the breathiness band under their usual conditions, and the mud-reduction bell:
  no high-pass band and no warmth bell, whatever the voice range. A recommendation still
  stands beside every band, and the three processing suggestions are there.
\<close>

theorem unvoiced_zero_pitch:
  "mean_hz (fundamental_frequency a) = 0 \<Longrightarrow>
   eq_bands (generate_eq_recommendations a acc) =
     [presence_band 2500] @
     (if brightness (voice_characteristics a) = ''very bright/sibilant'' then [sibilance_band]
      else if brightness (voice_characteristics a) = ''dark/warm'' then [air_band] else []) @
     (if breathiness_indicator (voice_quality a) = ''high'' then [breathiness_band] else []) @
     [mud_band] \<and>
   (\<forall>b \<in> set (eq_bands (generate_eq_recommendations a acc)).
      type b \<noteq> ''high-pass'' \<and> description b \<noteq> ''Add warmth and body'' \<and>
      gain_db b \<noteq> Some ''+1 to +2'') \<and>
   length (recommendations (generate_eq_recommendations a acc)) =
     length (eq_bands (generate_eq_recommendations a acc)) \<and>
   processing_suggestions (generate_eq_recommendations a acc) =
     [''Apply subtle compression (2:1 to 4:1 ratio) for consistent levels'',
      ''Use a noise gate if there's background noise between phrases'',
      ''Consider gentle saturation/warmth for added character'']"
proof -
  assume z: "mean_hz (fundamental_frequency a) = 0"
  have bands: "eq_bands (generate_eq_recommendations a acc) =
     [presence_band 2500] @
     (if brightness (voice_characteristics a) = ''very bright/sibilant'' then [sibilance_band]
      else if brightness (voice_characteristics a) = ''dark/warm'' then [air_band] else []) @
     (if breathiness_indicator (voice_quality a) = ''high'' then [breathiness_band] else []) @
     [mud_band]"
    by (simp add: eq_bands_unfold z)
  have none: "\<forall>b \<in> set (eq_bands (generate_eq_recommendations a acc)).
      type b \<noteq> ''high-pass'' \<and> description b \<noteq> ''Add warmth and body'' \<and>
      gain_db b \<noteq> Some ''+1 to +2''"
    unfolding bands
    by (auto simp: presence_band_def sibilance_band_def air_band_def breathiness_band_def
        mud_band_def)
  have sugg: "processing_suggestions (generate_eq_recommendations a acc) =
     [''Apply subtle compression (2:1 to 4:1 ratio) for consistent levels'',
      ''Use a noise gate if there's background noise between phrases'',
      ''Consider gentle saturation/warmth for added character'']"
    by (simp add: generate_eq_recommendations_def Let_def)
  from bands none sugg recommendations_length [of a acc] show ?thesis
    by blast
qed

text \<open>
  A fully unvoiced profile of low range, sibilant and breathy: four bands, none of them
  the high-pass or the warmth bell.
\<close>

theorem unvoiced_zero_pitch_witness:
  "eq_bands
     (generate_eq_recommendations
        \<lparr>fundamental_frequency = \<lparr>mean_hz = 0\<rparr>,
         spectral_characteristics = \<lparr>centroid_mean_hz = 4000\<rparr>,
         voice_quality = \<lparr>breathiness_indicator = ''high''\<rparr>,
         voice_characteristics =
           \<lparr>voice_type = ''bass'', voice_range = ''low'',
            brightness = ''very bright/sibilant''\<rparr>\<rparr>
        Map.empty) =
     [presence_band 2500, sibilance_band, breathiness_band, mud_band]"
  using unvoiced_zero_pitch
    [of "\<lparr>fundamental_frequency = \<lparr>mean_hz = 0\<rparr>,
         spectral_characteristics = \<lparr>centroid_mean_hz = 4000\<rparr>,
         voice_quality = \<lparr>breathiness_indicator = ''high''\<rparr>,
         voice_characteristics =
           \<lparr>voice_type = ''bass'', voice_range = ''low'',
            brightness = ''very bright/sibilant''\<rparr>\<rparr>" Map.empty]
  by simp

text \<open>
  C9. \<open>recommendations\<close> and \<open>eq_bands\<close> have the same length for every input, and that
  length is at least 2 and at most 6.
\<close>

theorem recommendations_match_bands:
  "length (recommendations (generate_eq_recommendations a acc)) =
     length (eq_bands (generate_eq_recommendations a acc)) \<and>
   2 \<le> length (eq_bands (generate_eq_recommendations a acc)) \<and>
   length (eq_bands (generate_eq_recommendations a acc)) \<le> 6"
  by (simp add: recommendations_length) (simp add: eq_bands_unfold)

text \<open>
  Both bounds are met: an unvoiced, balanced, not breathy profile has two entries, a low,
  dark and breathy one has six.
\<close>

theorem recommendations_match_bands_witness:
  "length (recommendations
     (generate_eq_recommendations
        \<lparr>fundamental_frequency = \<lparr>mean_hz = 0\<rparr>,
         spectral_characteristics = \<lparr>centroid_mean_hz = 2000\<rparr>,
         voice_quality = \<lparr>breathiness_indicator = ''low''\<rparr>,
         voice_characteristics =
           \<lparr>voice_type = ''bass'', voice_range = ''low'', brightness = ''balanced''\<rparr>\<rparr>
        Map.empty)) = 2 \<and>
   length (recommendations
     (generate_eq_recommendations
        \<lparr>fundamental_frequency = \<lparr>mean_hz = 110\<rparr>,
         spectral_characteristics = \<lparr>centroid_mean_hz = 1200\<rparr>,
         voice_quality = \<lparr>breathiness_indicator = ''high''\<rparr>,
         voice_characteristics =
           \<lparr>voice_type = ''bass'', voice_range = ''low'', brightness = ''dark/warm''\<rparr>\<rparr>
        Map.empty)) = 6"
  using recommendations_match_bands
    [of "\<lparr>fundamental_frequency = \<lparr>mean_hz = 0\<rparr>,
         spectral_characteristics = \<lparr>centroid_mean_hz = 2000\<rparr>,
         voice_quality = \<lparr>breathiness_indicator = ''low''\<rparr>,
         voice_characteristics =
           \<lparr>voice_type = ''bass'', voice_range = ''low'', brightness = ''balanced''\<rparr>\<rparr>"
        Map.empty]
    recommendations_match_bands
    [of "\<lparr>fundamental_frequency = \<lparr>mean_hz = 110\<rparr>,
         spectral_characteristics = \<lparr>centroid_mean_hz = 1200\<rparr>,
         voice_quality = \<lparr>breathiness_indicator = ''high''\<rparr>,
         voice_characteristics =
           \<lparr>voice_type = ''bass'', voice_range = ''low'', brightness = ''dark/warm''\<rparr>\<rparr>"
        Map.empty]
  by (simp add: eq_bands_unfold)

section \<open>A missing accent field\<close>

text \<open>
  C10. When the accent dictionary has no \<open>primary_accent\<close>, the plan is the one for the
  empty accent string: no accent tips, and every other part as for any accent.
\<close>

theorem missing_primary_accent:
  "acc ''primary_accent'' = None \<Longrightarrow>
   accent_specific_tips (generate_eq_recommendations a acc) = [] \<and>
   generate_eq_recommendations a acc =
     generate_eq_recommendations a (acc(''primary_accent'' \<mapsto> '''')) \<and>
   generate_eq_recommendations a acc =
     (generate_eq_recommendations a acc')\<lparr>accent_specific_tips := []\<rparr>"
  by (simp add: generate_eq_recommendations_def Let_def dict_get_def lower_def accent_tips_def)

text \<open>An accent dictionary that holds a confidence and no accent.\<close>

theorem missing_primary_accent_witness:
  "accent_specific_tips
     (generate_eq_recommendations
        \<lparr>fundamental_frequency = \<lparr>mean_hz = 110\<rparr>,
         spectral_characteristics = \<lparr>centroid_mean_hz = 1200\<rparr>,
         voice_quality = \<lparr>breathiness_indicator = ''low''\<rparr>,
         voice_characteristics =
           \<lparr>voice_type = ''bass'', voice_range = ''low'', brightness = ''dark/warm''\<rparr>\<rparr>
        [''confidence'' \<mapsto> ''high'']) = []"
proof -
  have absent: "[''confidence'' \<mapsto> ''high''] ''primary_accent'' = None"
    by simp
  show ?thesis
    by (rule conjunct1
          [OF missing_primary_accent [where acc = "[''confidence'' \<mapsto> ''high'']", OF absent]])
qed

end
